theory Spec2Isabelle
  imports Main "HOL-Library.AList"
begin

section \<open>Values and exceptions\<close>

text \<open>
  A model of \<^verbatim>\<open>src/pylogfig/main.py\<close>. The calls of \<^verbatim>\<open>LOGGER\<close> write log records
  and change neither a result nor an exception, so the model leaves them out. Paths and
  keys are strings of code points below 256.
\<close>

text \<open>
  The values a parsed configuration holds: \<^verbatim>\<open>None\<close>, booleans, integers, strings,
  lists and dictionaries with string keys. A dictionary is an association list in
  insertion order; \<open>map_of\<close> reads it and \<open>AList.update\<close> is the assignment
  \<^verbatim>\<open>d[k] = v\<close>. \<open>POther\<close> stands for any other object without a \<^verbatim>\<open>get\<close> method
  (a float, a date), named by its type.
\<close>

datatype pyval =
    PNone
  | PBool bool
  | PInt int
  | PStr string
  | PList "pyval list"
  | PDict "(string \<times> pyval) list"
  | POther string

text \<open>
  The exceptions of \<^verbatim>\<open>src/pylogfig/main.py\<close> and of the libraries it calls, each with
  its message. \<open>ConfigParseError\<close> is the class declared in the source (a direct
  subclass of \<^verbatim>\<open>Exception\<close>); \<open>IOError\<close> is an \<^verbatim>\<open>OSError\<close> other than
  \<^verbatim>\<open>FileNotFoundError\<close>; \<open>OtherException\<close> is any other subclass of \<^verbatim>\<open>Exception\<close>.
\<close>

datatype exn =
    ConfigParseError string
  | ValueError string
  | TypeError string
  | AttributeError string
  | FileNotFoundError string
  | IOError string
  | TOMLDecodeError string
  | JSONDecodeError string
  | YAMLError string
  | XMLParseError string
  | ConfigparserError string
  | OtherException string

fun exn_str :: "exn \<Rightarrow> string" where
  "exn_str (ConfigParseError m) = m"
| "exn_str (ValueError m) = m"
| "exn_str (TypeError m) = m"
| "exn_str (AttributeError m) = m"
| "exn_str (FileNotFoundError m) = m"
| "exn_str (IOError m) = m"
| "exn_str (TOMLDecodeError m) = m"
| "exn_str (JSONDecodeError m) = m"
| "exn_str (YAMLError m) = m"
| "exn_str (XMLParseError m) = m"
| "exn_str (ConfigparserError m) = m"
| "exn_str (OtherException m) = m"

definition sq :: string where
  "sq = [CHR 0x27]"

fun type_name :: "pyval \<Rightarrow> string" where
  "type_name PNone = ''NoneType''"
| "type_name (PBool b) = ''bool''"
| "type_name (PInt i) = ''int''"
| "type_name (PStr s) = ''str''"
| "type_name (PList xs) = ''list''"
| "type_name (PDict d) = ''dict''"
| "type_name (POther t) = t"

text \<open>Python truthiness, as \<^verbatim>\<open>if x:\<close> tests it.\<close>

fun truthy :: "pyval \<Rightarrow> bool" where
  "truthy PNone = False"
| "truthy (PBool b) = b"
| "truthy (PInt i) = (i \<noteq> 0)"
| "truthy (PStr s) = (s \<noteq> [])"
| "truthy (PList xs) = (xs \<noteq> [])"
| "truthy (PDict d) = (d \<noteq> [])"
| "truthy (POther t) = True"

fun is_dict :: "pyval \<Rightarrow> bool" where
  "is_dict (PDict d) = True"
| "is_dict v = False"

section \<open>String operations of the Python library\<close>

text \<open>\<^verbatim>\<open>s.split(c)\<close> for a one-character separator: every occurrence splits.\<close>

fun split_chr :: "char \<Rightarrow> string \<Rightarrow> string list" where
  "split_chr c [] = [[]]"
| "split_chr c (x # xs) =
     (if x = c then [] # split_chr c xs
      else (case split_chr c xs of
              w # ws \<Rightarrow> (x # w) # ws
            | [] \<Rightarrow> [[x]]))"

section \<open>The Config object and dotted lookup\<close>

text \<open>
  An instance of \<^verbatim>\<open>Config\<close> has the attributes \<^verbatim>\<open>_config\<close> and
  \<^verbatim>\<open>_logging_config\<close>; \<open>None\<close> is an attribute that was never assigned
  (reading it raises \<^verbatim>\<open>AttributeError\<close>).
\<close>

record config_obj =
  config :: "pyval option"
  logging_config :: "pyval option"

definition no_attribute :: "string \<Rightarrow> string \<Rightarrow> exn" where
  "no_attribute ty attr =
     AttributeError (sq @ ty @ sq @ '' object has no attribute '' @ sq @ attr @ sq)"

text \<open>
  \<^verbatim>\<open>value.get(key, default)\<close>: only a dictionary has the method. The parameter
  \<^verbatim>\<open>default\<close> of the source is written \<open>dflt\<close>.
\<close>

definition dict_get :: "pyval \<Rightarrow> string \<Rightarrow> pyval \<Rightarrow> exn + pyval" where
  "dict_get v key dflt =
     (case v of
        PDict d \<Rightarrow> Inr (case map_of d key of Some x \<Rightarrow> x | None \<Rightarrow> dflt)
      | _ \<Rightarrow> Inl (no_attribute (type_name v) ''get''))"

text \<open>
  The loop of \<^verbatim>\<open>Config.get\<close> (main.py, lines 179-183):
  \<^verbatim>\<open>
  for key in keys:
      value = value.get(key, default)
      if value is None:
          return default
  \<close>
\<close>

fun get_loop :: "pyval \<Rightarrow> string list \<Rightarrow> pyval \<Rightarrow> exn + pyval" where
  "get_loop v [] dflt = Inr v"
| "get_loop v (key # keys) dflt =
     (case dict_get v key dflt of
        Inl e \<Rightarrow> Inl e
      | Inr v' \<Rightarrow> if v' = PNone then Inr dflt else get_loop v' keys dflt)"

text \<open>
  \<^verbatim>\<open>Config.get(self, key=None, default=None)\<close>; the key is \<^verbatim>\<open>None\<close> or a
  string, and an empty string is falsy.
\<close>

definition get :: "config_obj \<Rightarrow> string option \<Rightarrow> pyval \<Rightarrow> exn + pyval" where
  "get self key dflt =
     (case config self of
        None \<Rightarrow> Inl (no_attribute ''Config'' ''_config'')
      | Some v \<Rightarrow>
          (case key of
             None \<Rightarrow> Inr v
           | Some k \<Rightarrow> if k \<noteq> [] then get_loop v (split_chr CHR ''.'' k) dflt else Inr v))"

text \<open>
  Strict resolution of a key path, the vocabulary of the lookup claims: every segment is
  present in a dictionary. \<open>None\<close> is a path that does not resolve.
\<close>

fun resolve :: "pyval \<Rightarrow> string list \<Rightarrow> pyval option" where
  "resolve v [] = Some v"
| "resolve (PDict d) (k # ks) = (case map_of d k of None \<Rightarrow> None | Some v \<Rightarrow> resolve v ks)"
| "resolve v (k # ks) = None"

definition tree_ab :: pyval where
  "tree_ab = PDict [(''a'', PDict [(''b'', PInt 5)])]"

section \<open>The properties parser\<close>

text \<open>
  The characters \<^verbatim>\<open>str.strip()\<close> removes, among the code points below 256: tab, line
  feed, vertical tab, form feed, carriage return, the four separators 0x1C-0x1F, space,
  NEL (0x85) and the no-break space (0xA0).
\<close>

definition is_space :: "char \<Rightarrow> bool" where
  "is_space c = (of_char c \<in> set [9, 10, 11, 12, 13, 28, 29, 30, 31, 32, 133, 160 :: nat])"

definition strip :: "string \<Rightarrow> string" where
  "strip s = rev (dropWhile is_space (rev (dropWhile is_space s)))"

definition startswith :: "string \<Rightarrow> char \<Rightarrow> bool" where
  "startswith s c = (case s of [] \<Rightarrow> False | x # xs \<Rightarrow> x = c)"

text \<open>
  \<^verbatim>\<open>key, value = line.split(c, 1)\<close>, which the source runs only after the test
  \<^verbatim>\<open>c in line\<close>: the part before the first \<open>c\<close> and the part after it.
\<close>

definition split_once :: "char \<Rightarrow> string \<Rightarrow> string \<times> string" where
  "split_once c s = (takeWhile (\<lambda>x. x \<noteq> c) s, drop 1 (dropWhile (\<lambda>x. x \<noteq> c) s))"

text \<open>
  The loop body of \<^verbatim>\<open>parse_properties_file\<close> (main.py, lines 139-151), with the
  dictionary \<^verbatim>\<open>config_dict\<close> as the accumulator.
\<close>

fun properties_loop :: "string list \<Rightarrow> (string \<times> string) list \<Rightarrow> (string \<times> string) list" where
  "properties_loop [] config_dict = config_dict"
| "properties_loop (raw # rest) config_dict =
     (let line = strip raw in
      if line = [] \<or> startswith line CHR ''#'' \<or> startswith line CHR ''!''
      then properties_loop rest config_dict
      else if CHR ''='' \<in> set line
      then (case split_once CHR ''='' line of
              (key, val) \<Rightarrow> properties_loop rest (AList.update (strip key) (strip val) config_dict))
      else if CHR '':'' \<in> set line
      then (case split_once CHR '':'' line of
              (key, val) \<Rightarrow> properties_loop rest (AList.update (strip key) (strip val) config_dict))
      else properties_loop rest config_dict)"

text \<open>
  Iterating over a text file: each line keeps its line feed, and a last line without one
  is a line too.
\<close>

fun file_lines :: "string \<Rightarrow> string list" where
  "file_lines [] = []"
| "file_lines (c # cs) =
     (if c = CHR 0x0A then [c] # file_lines cs
      else (case file_lines cs of
              [] \<Rightarrow> [[c]]
            | l # ls \<Rightarrow> (c # l) # ls))"

definition str_dict :: "(string \<times> string) list \<Rightarrow> pyval" where
  "str_dict d = PDict (map (\<lambda>(k, v). (k, PStr v)) d)"



definition properties_example :: string where
  "properties_example =
     ''# comment'' @ [CHR 0x0A] @ ''key1=val1'' @ [CHR 0x0A] @ ''key2:val2'' @ [CHR 0x0A]
       @ ''badline'' @ [CHR 0x0A]"

section \<open>The XML conversion\<close>

text \<open>
  An element of \<^verbatim>\<open>xml.etree.ElementTree\<close>: its tag, its text (\<^verbatim>\<open>None\<close> when there
  is none) and its child elements; \<^verbatim>\<open>len(element)\<close> is the number of children.
\<close>

datatype element = Element (tag: string) (elem_text: "string option") (children: "element list")

fun xml_to_dict :: "element \<Rightarrow> pyval" where
  "xml_to_dict (Element t txt cs) =
     (if length cs = 0 then (case txt of None \<Rightarrow> PNone | Some s \<Rightarrow> PStr s)
      else PDict (fold (\<lambda>child result. AList.update (tag child) (xml_to_dict child) result) cs []))"

definition xml_example :: element where
  "xml_example = Element ''root'' None [Element ''a'' (Some ''1'') [], Element ''a'' (Some ''2'') []]"

section \<open>The dispatcher\<close>

text \<open>
  \<^verbatim>\<open>os.path.splitext\<close> of the POSIX path module: the extension starts at the last dot
  of the last path component, unless that component has only dots before it.
\<close>

definition rfind :: "char \<Rightarrow> string \<Rightarrow> int" where
  "rfind c s =
     (if c \<in> set s then int (length s) - 1 - int (length (takeWhile (\<lambda>x. x \<noteq> c) (rev s)))
      else - 1)"

definition splitext :: "string \<Rightarrow> string \<times> string" where
  "splitext p =
     (let sepIndex = rfind CHR ''/'' p; dotIndex = rfind CHR ''.'' p in
      if dotIndex > sepIndex
         \<and> filter (\<lambda>x. x \<noteq> CHR ''.'')
              (take (nat dotIndex - nat (sepIndex + 1)) (drop (nat (sepIndex + 1)) p)) \<noteq> []
      then (take (nat dotIndex) p, drop (nat dotIndex) p)
      else (p, []))"

text \<open>
  The libraries and the file system, as the parsers call them: each call returns a value
  or raises. \<open>dictConfig\<close> is \<^verbatim>\<open>logging.config.dictConfig\<close>, which returns nothing.
\<close>

record env =
  toml_load :: "string \<Rightarrow> exn + pyval"
  json_load :: "string \<Rightarrow> exn + pyval"
  yaml_safe_load :: "string \<Rightarrow> exn + pyval"
  configparser_read :: "string \<Rightarrow> exn + (string \<times> (string \<times> string) list) list"
  ET_parse :: "string \<Rightarrow> exn + element"
  read_text :: "string \<Rightarrow> exn + string"
  dotenv_values :: "string \<Rightarrow> exn + pyval"
  dictConfig :: "pyval \<Rightarrow> exn option"

definition parse_ini_file :: "env \<Rightarrow> string \<Rightarrow> exn + pyval" where
  "parse_ini_file env file_path =
     (case configparser_read env file_path of
        Inr sections \<Rightarrow> Inr (PDict (map (\<lambda>(section, items). (section, str_dict items)) sections))
      | Inl e \<Rightarrow>
          (case e of
             ConfigparserError m \<Rightarrow>
               Inl (ValueError (''Failed to parse INI file '' @ sq @ file_path @ sq @ '': '' @ m))
           | FileNotFoundError m \<Rightarrow>
               Inl (ValueError (''Failed to parse INI file '' @ sq @ file_path @ sq @ '': '' @ m))
           | _ \<Rightarrow> Inl e))"

definition parse_xml_file :: "env \<Rightarrow> string \<Rightarrow> exn + pyval" where
  "parse_xml_file env file_path =
     (case ET_parse env file_path of
        Inr root \<Rightarrow> Inr (xml_to_dict root)
      | Inl e \<Rightarrow>
          (case e of
             XMLParseError m \<Rightarrow> Inl (ConfigParseError (''Failed to parse XML file: '' @ m))
           | FileNotFoundError m \<Rightarrow> Inl (ConfigParseError (''Failed to parse XML file: '' @ m))
           | _ \<Rightarrow> Inl e))"

definition parse_json_file :: "env \<Rightarrow> string \<Rightarrow> exn + pyval" where
  "parse_json_file env file_path =
     (case json_load env file_path of
        Inr v \<Rightarrow> Inr v
      | Inl e \<Rightarrow>
          (case e of
             JSONDecodeError m \<Rightarrow> Inl (ConfigParseError (''Failed to parse JSON file: '' @ m))
           | FileNotFoundError m \<Rightarrow> Inl (ConfigParseError (''Failed to parse JSON file: '' @ m))
           | _ \<Rightarrow> Inl e))"

definition parse_yaml_file :: "env \<Rightarrow> string \<Rightarrow> exn + pyval" where
  "parse_yaml_file env file_path =
     (case yaml_safe_load env file_path of
        Inr v \<Rightarrow> Inr v
      | Inl e \<Rightarrow>
          (case e of
             YAMLError m \<Rightarrow> Inl (ConfigParseError (''Failed to parse YAML file: '' @ m))
           | FileNotFoundError m \<Rightarrow> Inl (ConfigParseError (''Failed to parse YAML file: '' @ m))
           | _ \<Rightarrow> Inl e))"

definition parse_toml_file :: "env \<Rightarrow> string \<Rightarrow> exn + pyval" where
  "parse_toml_file env file_path =
     (case toml_load env file_path of
        Inr v \<Rightarrow> Inr v
      | Inl e \<Rightarrow>
          (case e of
             TOMLDecodeError m \<Rightarrow> Inl (ConfigParseError (''Failed to parse TOML file: '' @ m))
           | FileNotFoundError m \<Rightarrow> Inl (ConfigParseError (''Failed to parse TOML file: '' @ m))
           | _ \<Rightarrow> Inl e))"

definition parse_env_file :: "env \<Rightarrow> string \<Rightarrow> exn + pyval" where
  "parse_env_file env file_path = dotenv_values env file_path"

definition parse_properties_file :: "env \<Rightarrow> string \<Rightarrow> exn + pyval" where
  "parse_properties_file env file_path =
     (case read_text env file_path of
        Inr content \<Rightarrow> Inr (str_dict (properties_loop (file_lines content) []))
      | Inl e \<Rightarrow>
          (case e of
             FileNotFoundError m \<Rightarrow> Inl (ConfigParseError (''File not found: '' @ file_path))
           | IOError m \<Rightarrow> Inl (ConfigParseError (''IO error while reading file: '' @ m))
           | _ \<Rightarrow> Inl (ConfigParseError (''Failed to parse properties file: '' @ exn_str e))))"

definition must_specify :: "string \<Rightarrow> string" where
  "must_specify file_path =
     ''Must specify file extension to parse as for '' @ sq @ ''.config'' @ sq @ '' file ''
       @ sq @ file_path @ sq @ ''.''"

definition invalid_extension :: "string \<Rightarrow> string" where
  "invalid_extension file_path =
     ''Invalid file extension: '' @ file_path @ ''. Expected a '' @ sq @ ''.toml'' @ sq @ '', ''
       @ sq @ ''.json'' @ sq @ '', '' @ sq @ ''.yaml'' @ sq @ '', '' @ sq @ ''.ini'' @ sq @ '', ''
       @ sq @ ''.xml'' @ sq @ '', '' @ sq @ ''.properties'' @ sq @ '', '' @ sq @ ''.env'' @ sq
       @ '', or '' @ sq @ ''.config'' @ sq @ '' file.''"

text \<open>
  The extension \<^verbatim>\<open>_load_config\<close> dispatches on: the override when it is truthy (a
  non-empty string), the path's extension otherwise.
\<close>

definition file_extension :: "string \<Rightarrow> string option \<Rightarrow> string" where
  "file_extension file_path file_type =
     (case file_type of
        None \<Rightarrow> snd (splitext file_path)
      | Some t \<Rightarrow> if t \<noteq> [] then t else snd (splitext file_path))"

text \<open>
  \<^verbatim>\<open>Config._load_config(self, file_path, file_type)\<close>. Its handler
  \<^verbatim>\<open>except Exception as e: LOGGER.exception(...); raise\<close> logs and raises the same
  exception again, so the result is the one of the \<^verbatim>\<open>try\<close> block.
\<close>

definition load_config :: "env \<Rightarrow> string \<Rightarrow> string option \<Rightarrow> exn + pyval" where
  "load_config env file_path file_type =
     (let ext = file_extension file_path file_type in
      if ext = ''.toml'' then parse_toml_file env file_path
      else if ext = ''.json'' then parse_json_file env file_path
      else if ext = ''.yaml'' \<or> ext = ''.yml'' then parse_yaml_file env file_path
      else if ext = ''.ini'' then parse_ini_file env file_path
      else if ext = ''.xml'' then parse_xml_file env file_path
      else if ext = ''.properties'' then parse_properties_file env file_path
      else if ext = ''.env'' then parse_env_file env file_path
      else if ext = ''.config'' then Inl (ConfigParseError (must_specify file_path))
      else Inl (ConfigParseError (invalid_extension file_path)))"

definition supported_extensions :: "string list" where
  "supported_extensions =
     [''.toml'', ''.json'', ''.yaml'', ''.yml'', ''.ini'', ''.xml'', ''.properties'', ''.env'']"

text \<open>
  A call of the method with the positional arguments that follow \<^verbatim>\<open>file_path\<close>:
  \<^verbatim>\<open>file_type\<close> has no default value, so a call without it raises
  \<^verbatim>\<open>TypeError\<close> before the body runs.
\<close>

definition missing_file_type :: exn where
  "missing_file_type =
     TypeError (''Config._load_config() missing 1 required positional argument: ''
                 @ sq @ ''file_type'' @ sq)"

definition call_load_config :: "env \<Rightarrow> string \<Rightarrow> string option list \<Rightarrow> exn + pyval" where
  "call_load_config env file_path rest =
     (case rest of
        [] \<Rightarrow> Inl missing_file_type
      | [file_type] \<Rightarrow> load_config env file_path file_type
      | _ \<Rightarrow> Inl (TypeError ''Config._load_config() takes 3 positional arguments but more were given''))"

section \<open>The singleton and the logging configuration\<close>

text \<open>
  The logging subsystem is the list of the configurations handed to
  \<^verbatim>\<open>logging.config.dictConfig\<close>, in the order of the calls.
\<close>

type_synonym logging_sys = "pyval list"

text \<open>
  \<^verbatim>\<open>if self._logging_config: logging.config.dictConfig(self._logging_config)\<close>, the
  last statement of \<^verbatim>\<open>_setup\<close> and of \<^verbatim>\<open>load_logging_config\<close>.
\<close>

fun apply_logging :: "env \<Rightarrow> config_obj \<times> logging_sys \<Rightarrow> exn option \<times> (config_obj \<times> logging_sys)" where
  "apply_logging env (self, lg) =
     (case logging_config self of
        None \<Rightarrow> (Some (no_attribute ''Config'' ''_logging_config''), (self, lg))
      | Some v \<Rightarrow> if truthy v then (dictConfig env v, (self, lg @ [v])) else (None, (self, lg)))"

text \<open>
  \<^verbatim>\<open>Config._setup\<close>: the result is the exception raised, or \<open>None\<close> for a normal
  return, with the object and the logging subsystem as the call leaves them.
\<close>

fun Config_setup :: "env \<Rightarrow> string \<Rightarrow> string option \<Rightarrow> string option \<Rightarrow> string option
    \<Rightarrow> config_obj \<times> logging_sys \<Rightarrow> exn option \<times> (config_obj \<times> logging_sys)" where
  "Config_setup env config_file_path config_file_type logging_config_file_path logging_config_file_type
       (self, lg) =
     (case call_load_config env config_file_path [config_file_type] of
        Inl e \<Rightarrow> (Some e, (self, lg))
      | Inr c \<Rightarrow>
          (let self1 = self\<lparr>config := Some c\<rparr> in
           (case (case logging_config_file_path of
                    None \<Rightarrow> Inr PNone
                  | Some q \<Rightarrow>
                      if q \<noteq> [] then call_load_config env q [logging_config_file_type]
                      else Inr PNone) of
              Inl e \<Rightarrow> (Some e, (self1, lg))
            | Inr lc \<Rightarrow> apply_logging env (self1\<lparr>logging_config := Some lc\<rparr>, lg))))"

text \<open>
  The process: the objects allocated so far (an object's address is its index), the class
  attribute \<^verbatim>\<open>Config._instance\<close> and the logging subsystem.
\<close>

record pystate =
  heap :: "config_obj list"
  Config_instance :: "nat option"
  logging :: logging_sys

definition initial_state :: pystate where
  "initial_state = \<lparr>heap = [], Config_instance = None, logging = []\<rparr>"

text \<open>
  \<^verbatim>\<open>Config.__new__\<close>: the new object is stored in \<^verbatim>\<open>cls._instance\<close> before
  \<^verbatim>\<open>_setup\<close> runs, so it stays there when \<^verbatim>\<open>_setup\<close> raises.
\<close>

definition Config_new :: "env \<Rightarrow> string \<Rightarrow> string option \<Rightarrow> string option \<Rightarrow> string option
    \<Rightarrow> pystate \<Rightarrow> (exn + nat) \<times> pystate" where
  "Config_new env config_file_path config_file_type logging_config_file_path
       logging_config_file_type st =
     (case Config_instance st of
        None \<Rightarrow>
          (let a = length (heap st) in
           (case Config_setup env config_file_path config_file_type logging_config_file_path
                   logging_config_file_type (\<lparr>config = None, logging_config = None\<rparr>, logging st) of
              (r, (obj, lg)) \<Rightarrow>
                (let st' = \<lparr>heap = heap st @ [obj], Config_instance = Some a, logging = lg\<rparr> in
                 (case r of Some e \<Rightarrow> (Inl e, st') | None \<Rightarrow> (Inr a, st')))))
      | Some a \<Rightarrow> (Inr a, st))"

text \<open>A sequence of constructions, each with its four parameters.\<close>

fun constructions :: "env \<Rightarrow> (string \<times> string option \<times> string option \<times> string option) list
    \<Rightarrow> pystate \<Rightarrow> pystate" where
  "constructions env [] st = st"
| "constructions env ((p, t, lp, lt) # cs) st = constructions env cs (snd (Config_new env p t lp lt st))"

definition expected_dict_or_str :: "pyval \<Rightarrow> exn" where
  "expected_dict_or_str v =
     TypeError (''Expected type '' @ sq @ ''dict'' @ sq @ '' or '' @ sq @ ''str'' @ sq
                 @ '' for input, got <class '' @ sq @ type_name v @ sq @ ''>'')"

text \<open>\<^verbatim>\<open>Config.load_logging_config(self, input)\<close> (main.py, lines 160-173).\<close>

fun load_logging_config :: "env \<Rightarrow> pyval \<Rightarrow> config_obj \<times> logging_sys
    \<Rightarrow> exn option \<times> (config_obj \<times> logging_sys)" where
  "load_logging_config env input (self, lg) =
     (case input of
        PDict d \<Rightarrow> apply_logging env (self\<lparr>logging_config := Some input\<rparr>, lg)
      | PStr s \<Rightarrow>
          (case call_load_config env s [] of
             Inl e \<Rightarrow> (Some e, (self, lg))
           | Inr v \<Rightarrow> apply_logging env (self\<lparr>logging_config := Some v\<rparr>, lg))
      | _ \<Rightarrow> (Some (expected_dict_or_str input), (self, lg)))"

section \<open>A concrete environment\<close>

text \<open>
  Two readable files, \<^verbatim>\<open>config.toml\<close> and \<^verbatim>\<open>other.json\<close>, a properties file, and
  parsers that reject everything else.
\<close>

definition demo_env :: env where
  "demo_env =
     \<lparr>toml_load = (\<lambda>p. if p = ''config.toml'' then Inr (PDict [(''a'', PInt 1)])
                        else Inl (FileNotFoundError p)),
      json_load = (\<lambda>p. if p = ''other.json'' then Inr (PDict [(''a'', PInt 2)])
                        else Inl (JSONDecodeError ''Expecting value'')),
      yaml_safe_load = (\<lambda>p. Inl (YAMLError ''mapping values are not allowed here'')),
      configparser_read = (\<lambda>p. Inl (ConfigparserError ''File contains no section headers.'')),
      ET_parse = (\<lambda>p. Inl (XMLParseError ''syntax error: line 1, column 0'')),
      read_text = (\<lambda>p. if p = ''app.properties'' then Inr properties_example
                        else Inl (FileNotFoundError p)),
      dotenv_values = (\<lambda>p. Inr (PDict [])),
      dictConfig = (\<lambda>v. None)\<rparr>"

definition demo_obj :: config_obj where
  "demo_obj = \<lparr>config = Some tree_ab, logging_config = None\<rparr>"

section \<open>Vocabulary of the XML claim\<close>

text \<open>
  The conversion rule in the words of the specification: the text of a childless element
  as a value, and the last of the siblings that carry a given tag.
\<close>

definition text_value :: "string option \<Rightarrow> pyval" where
  "text_value txt = (case txt of None \<Rightarrow> PNone | Some s \<Rightarrow> PStr s)"

definition last_with_tag :: "string \<Rightarrow> element list \<Rightarrow> element option" where
  "last_with_tag t cs = (case rev (filter (\<lambda>c. tag c = t) cs) of [] \<Rightarrow> None | c # rest \<Rightarrow> Some c)"

section \<open>Vocabulary of the singleton claim\<close>

text \<open>
  The shape of every process state that constructions reach: no object and no instance,
  or one object, at address 0, which is the instance.
\<close>

definition at_most_one :: "pystate \<Rightarrow> bool" where
  "at_most_one st =
     (case Config_instance st of
        None \<Rightarrow> heap st = []
      | Some a \<Rightarrow> a = 0 \<and> length (heap st) = 1)"

text \<open>The process after \<^verbatim>\<open>Config('config.toml')\<close> in the concrete environment.\<close>

definition demo_state :: pystate where
  "demo_state =
     \<lparr>heap = [\<lparr>config = Some (PDict [(''a'', PInt 1)]), logging_config = Some PNone\<rparr>],
      Config_instance = Some 0, logging = []\<rparr>"

section \<open>Dotted lookup\<close>

text \<open>
  Along a path that resolves to a value other than \<^verbatim>\<open>None\<close>, the loop reaches that
  value and goes on from there.
\<close>

lemma get_loop_resolved:
  "resolve v ks1 = Some w \<Longrightarrow> w \<noteq> PNone \<Longrightarrow> get_loop v (ks1 @ ks2) dflt = get_loop w ks2 dflt"
proof (induction v ks1 rule: resolve.induct)
  case (1 v)
  then show ?case by simp
next
  case (2 d k ks)
  then obtain v' where v': "map_of d k = Some v'" "resolve v' ks = Some w"
    by (auto split: option.splits)
  have "v' \<noteq> PNone"
  proof
    assume "v' = PNone"
    with v'(2) 2(3) show False by (cases ks) auto
  qed
  with 2 v' show ?case by (simp add: dict_get_def)
qed simp_all

text \<open>A stored \<^verbatim>\<open>None\<close> ends the loop with the default, whatever segments follow.\<close>

lemma get_loop_resolved_None:
  "resolve v ks1 = Some PNone \<Longrightarrow> ks1 \<noteq> [] \<Longrightarrow> get_loop v (ks1 @ ks2) dflt = Inr dflt"
proof (induction v ks1 rule: resolve.induct)
  case (2 d k ks)
  then obtain v' where v': "map_of d k = Some v'" "resolve v' ks = Some PNone"
    by (auto split: option.splits)
  show ?case
  proof (cases "v' = PNone")
    case True
    with v' show ?thesis by (simp add: dict_get_def)
  next
    case False
    with v'(2) have "ks \<noteq> []" by (cases ks) auto
    with 2 v' False show ?thesis by (simp add: dict_get_def)
  qed
qed simp_all

lemma get_loop_not_dict:
  "\<not> is_dict v \<Longrightarrow> ks \<noteq> [] \<Longrightarrow> get_loop v ks dflt = Inl (no_attribute (type_name v) ''get'')"
  by (cases ks; cases v) (simp_all add: dict_get_def)

lemma split_chr_not_Nil: "split_chr c s \<noteq> []"
  by (cases s) (auto split: list.splits)

text \<open>
  Claim C1. \<^verbatim>\<open>Config.get\<close> is claimed to return the caller's default for the whole
  call as soon as a segment is absent. On the tree \<^verbatim>\<open>{"a": {"b": 5}}\<close> the code returns
  5 for \<^verbatim>\<open>get("a.b")\<close> and 42 for \<^verbatim>\<open>get("a.c", default=42)\<close>, but
  \<^verbatim>\<open>get("x.y", default="none")\<close> raises \<^verbatim>\<open>AttributeError\<close>: the absent segment
  \<^verbatim>\<open>x\<close> is replaced by the default, the loop goes on, and the string has no method
  \<^verbatim>\<open>get\<close>. With a dictionary as the default the loop reads the next segment in the
  default itself.
\<close>

theorem get_examples:
  "get demo_obj (Some ''a.b'') PNone = Inr (PInt 5)
   \<and> get demo_obj (Some ''a.c'') (PInt 42) = Inr (PInt 42)
   \<and> get demo_obj (Some ''x.y'') (PStr ''none'') = Inl (no_attribute ''str'' ''get'')
   \<and> get demo_obj (Some ''x.y'') (PDict [(''y'', PInt 7)]) = Inr (PInt 7)"
  by (simp add: get_def demo_obj_def tree_ab_def dict_get_def)

text \<open>
  Claim C2. \<^verbatim>\<open>Config.get\<close> is claimed to return the default, and never to raise,
  when the value reached is not a mapping while segments remain. The code calls
  \<^verbatim>\<open>value.get\<close> on that value without looking at its type. When a prefix of the key
  path resolves to a value that is not a mapping and segments remain, the call returns the
  default only if that value is a \<^verbatim>\<open>None\<close> read from the tree; for every other such
  value, and for a root that is not a mapping, it raises \<^verbatim>\<open>AttributeError\<close>. On
  \<^verbatim>\<open>{"a": 5}\<close> the call \<^verbatim>\<open>get("a.b", default=0)\<close> raises instead of returning 0.
\<close>

theorem get_non_mapping:
  assumes "config self = Some cfg" and "k \<noteq> []" and "split_chr CHR ''.'' k = ks1 @ ks2"
    and "ks2 \<noteq> []" and "resolve cfg ks1 = Some w" and "\<not> is_dict w"
  shows "get self (Some k) dflt =
           (if w = PNone \<and> ks1 \<noteq> [] then Inr dflt else Inl (no_attribute (type_name w) ''get''))"
proof (cases "w = PNone")
  case True
  show ?thesis
  proof (cases "ks1 = []")
    case True
    with assms show ?thesis by (simp add: get_def get_loop_not_dict)
  next
    case False
    with assms \<open>w = PNone\<close> show ?thesis by (simp add: get_def get_loop_resolved_None)
  qed
next
  case False
  with assms show ?thesis by (simp add: get_def get_loop_resolved get_loop_not_dict)
qed

theorem get_non_mapping_witness:
  "split_chr CHR ''.'' ''a.b'' = [''a''] @ [''b'']
   \<and> resolve (PDict [(''a'', PInt 5)]) [''a''] = Some (PInt 5)
   \<and> \<not> is_dict (PInt 5)
   \<and> get \<lparr>config = Some (PDict [(''a'', PInt 5)]), logging_config = None\<rparr> (Some ''a.b'') (PInt 0)
       = Inl (no_attribute ''int'' ''get'')"
  using get_non_mapping [of "\<lparr>config = Some (PDict [(''a'', PInt 5)]), logging_config = None\<rparr>"
      "PDict [(''a'', PInt 5)]" "''a.b''" "[''a'']" "[''b'']" "PInt 5" "PInt 0"]
  by simp

text \<open>
  Claim C9. When the dotted key resolves to a stored \<^verbatim>\<open>None\<close>, \<^verbatim>\<open>Config.get\<close>
  returns the caller's default, as it does for an absent key; without a default that is
  \<^verbatim>\<open>None\<close> again.
\<close>

theorem get_null_as_absent:
  assumes "config self = Some cfg" and "k \<noteq> []"
    and "resolve cfg (split_chr CHR ''.'' k) = Some PNone"
  shows "get self (Some k) dflt = Inr dflt"
proof -
  from assms get_loop_resolved_None [of cfg "split_chr CHR ''.'' k" "[]" dflt]
  show ?thesis by (simp add: get_def split_chr_not_Nil)
qed

theorem get_null_as_absent_witness:
  "resolve (PDict [(''a'', PDict [(''b'', PNone)])]) (split_chr CHR ''.'' ''a.b'') = Some PNone
   \<and> get \<lparr>config = Some (PDict [(''a'', PDict [(''b'', PNone)])]), logging_config = None\<rparr>
         (Some ''a.b'') (PInt 7) = Inr (PInt 7)"
  using get_null_as_absent [of "\<lparr>config = Some (PDict [(''a'', PDict [(''b'', PNone)])]), logging_config = None\<rparr>"
      "PDict [(''a'', PDict [(''b'', PNone)])]" "''a.b''" "PInt 7"]
  by simp

section \<open>The logging configuration\<close>

text \<open>
  Claim C10. \<^verbatim>\<open>load_logging_config\<close> with a mapping leaves \<^verbatim>\<open>_config\<close> as it was,
  so every \<^verbatim>\<open>get(key, default)\<close> has the same result after the call as before it,
  whether or not \<^verbatim>\<open>dictConfig\<close> raises.
\<close>

theorem load_logging_config_frame:
  "config (fst (snd (load_logging_config env (PDict d) (self, lg)))) = config self
   \<and> get (fst (snd (load_logging_config env (PDict d) (self, lg)))) key dflt = get self key dflt"
  by (simp add: get_def)

text \<open>
  Claim C4. \<^verbatim>\<open>load_logging_config\<close> is claimed to parse the file when its input is a
  path string. The code calls \<^verbatim>\<open>self._load_config(input)\<close> without the required
  \<^verbatim>\<open>file_type\<close>, so every string raises \<^verbatim>\<open>TypeError\<close>, no file is read, and the
  object and the logging subsystem stay as they were.
\<close>

theorem load_logging_config_str:
  "load_logging_config env (PStr s) (self, lg) = (Some missing_file_type, (self, lg))"
  by (simp add: call_load_config_def)

section \<open>Parser failures\<close>

text \<open>
  Claim C3. Every parser failure is claimed to reach the caller as
  \<^verbatim>\<open>ConfigParseError\<close>. A file \<^verbatim>\<open>settings.ini\<close> that \<^verbatim>\<open>configparser\<close> rejects
  reaches the caller of \<^verbatim>\<open>_load_config\<close> as \<^verbatim>\<open>ValueError\<close>, while a YAML file that
  the YAML parser rejects reaches it as \<^verbatim>\<open>ConfigParseError\<close>.
\<close>

theorem ini_failure_is_ValueError:
  "load_config demo_env ''settings.ini'' None
     = Inl (ValueError (''Failed to parse INI file '' @ sq @ ''settings.ini'' @ sq
                         @ '': File contains no section headers.''))
   \<and> load_config demo_env ''settings.yaml'' None
     = Inl (ConfigParseError ''Failed to parse YAML file: mapping values are not allowed here'')"
  by (simp add: load_config_def file_extension_def splitext_def rfind_def parse_ini_file_def
      parse_yaml_file_def demo_env_def)

section \<open>The properties parser against its rules\<close>







section \<open>The XML conversion against its rule\<close>

text \<open>
  The loop over the children, from any starting dictionary: a tag is bound to the
  conversion of its last child, and a tag no child carries keeps its binding.
\<close>

lemma fold_update_map_of:
  "map_of (fold (\<lambda>child result. AList.update (tag child) (f child) result) cs acc) t =
     (case last_with_tag t cs of None \<Rightarrow> map_of acc t | Some c \<Rightarrow> Some (f c))"
proof (induction cs arbitrary: acc)
  case Nil
  then show ?case by (simp add: last_with_tag_def)
next
  case (Cons c cs)
  show ?case
    by (simp add: Cons.IH last_with_tag_def update_conv' split: list.splits)
qed

lemma fold_update_distinct:
  "distinct (map fst acc) \<Longrightarrow>
   distinct (map fst (fold (\<lambda>child result. AList.update (tag child) (f child) result) cs acc))"
  by (induction cs arbitrary: acc) (simp_all add: distinct_update)

text \<open>
  Claim C6. An element without children converts to its text (\<^verbatim>\<open>None\<close> when it has
  none); an element with children converts to a dictionary that binds exactly the tags of
  its children, each once, to the conversion of the last child with that tag. The example
  \<^verbatim>\<open><root><a>1</a><a>2</a></root>\<close> converts to \<^verbatim>\<open>{"a": "2"}\<close>.
\<close>

theorem xml_to_dict_rule:
  "(if children e = [] then xml_to_dict e = text_value (elem_text e)
    else (\<exists>d. xml_to_dict e = PDict d \<and> distinct (map fst d)
            \<and> (\<forall>t. map_of d t = map_option xml_to_dict (last_with_tag t (children e)))))
   \<and> xml_to_dict xml_example = PDict [(''a'', PStr ''2'')]"
proof -
  obtain t tx cs where e: "e = Element t tx cs" by (cases e)
  have A: "cs \<noteq> [] \<Longrightarrow> (\<exists>d. xml_to_dict e = PDict d \<and> distinct (map fst d)
            \<and> (\<forall>t. map_of d t = map_option xml_to_dict (last_with_tag t (children e))))"
    unfolding e
    by (simp add: fold_update_distinct fold_update_map_of split: option.splits)
  have B: "xml_to_dict xml_example = PDict [(''a'', PStr ''2'')]"
    by (simp add: xml_example_def)
  from A B e show ?thesis by (simp add: text_value_def)
qed

theorem xml_to_dict_rule_witness:
  "children xml_example \<noteq> []
   \<and> (\<exists>d. xml_to_dict xml_example = PDict d \<and> distinct (map fst d)
          \<and> (\<forall>t. map_of d t = map_option xml_to_dict (last_with_tag t (children xml_example))))"
  using xml_to_dict_rule [of xml_example] by (simp add: xml_example_def)

section \<open>The singleton\<close>

lemma Config_new_existing:
  "Config_instance st = Some a \<Longrightarrow> Config_new env p t lp lt st = (Inr a, st)"
  by (simp add: Config_new_def)

lemma Config_new_at_most_one:
  "at_most_one st \<Longrightarrow> at_most_one (snd (Config_new env p t lp lt st))"
  by (auto simp: Config_new_def at_most_one_def Let_def split: option.splits prod.splits)

lemma constructions_at_most_one:
  "at_most_one st \<Longrightarrow> at_most_one (constructions env cs st)"
proof (induction cs arbitrary: st)
  case Nil
  then show ?case by simp
next
  case (Cons c cs)
  obtain p t lp lt where c: "c = (p, t, lp, lt)" by (cases c) auto
  from Cons show ?case unfolding c by (simp add: Config_new_at_most_one)
qed

lemma at_most_one_length: "at_most_one st \<Longrightarrow> length (heap st) \<le> 1"
  by (auto simp: at_most_one_def split: option.splits)

text \<open>A \<^verbatim>\<open>_setup\<close> that returns has stored what the dispatcher loaded from the primary path.\<close>

lemma setup_ok_config:
  "Config_setup env p t lp lt (obj, lg) = (None, (obj', lg')) \<Longrightarrow>
     \<exists>c. load_config env p t = Inr c \<and> config obj' = Some c"
  by (auto simp: call_load_config_def Let_def split: sum.splits option.splits if_splits)

lemma Config_new_first:
  assumes "Config_instance st = None" and "Config_new env p t lp lt st = (Inr a, st1)"
  shows "a = length (heap st) \<and> Config_instance st1 = Some a
         \<and> (\<exists>c. load_config env p t = Inr c \<and> config (heap st1 ! a) = Some c)"
proof -
  obtain r obj lg where s:
    "Config_setup env p t lp lt (\<lparr>config = None, logging_config = None\<rparr>, logging st) = (r, (obj, lg))"
    by (metis prod.exhaust)
  with assms have r: "r = None" and a: "a = length (heap st)"
    and st1: "st1 = \<lparr>heap = heap st @ [obj], Config_instance = Some a, logging = lg\<rparr>"
    by (auto simp: Config_new_def Let_def split: option.splits)
  from s r setup_ok_config obtain c where "load_config env p t = Inr c" "config obj = Some c"
    by blast
  with a st1 show ?thesis by simp
qed

lemma demo_first:
  "Config_new demo_env ''config.toml'' None None None initial_state = (Inr 0, demo_state)"
  by (simp add: Config_new_def initial_state_def demo_state_def call_load_config_def load_config_def
      file_extension_def splitext_def rfind_def parse_toml_file_def demo_env_def)

text \<open>
  Claim C7. After any sequence of constructions the process holds at most one
  \<^verbatim>\<open>Config\<close> object. A construction in a process that has an instance returns that
  instance and changes nothing, whatever its parameters. A first construction that
  returns has loaded \<^verbatim>\<open>_config\<close> from its own path, and a second construction with
  other parameters returns the same object in the same state.
\<close>

theorem Config_singleton:
  "length (heap (constructions env cs initial_state)) \<le> 1
   \<and> (Config_instance st = Some a \<longrightarrow> Config_new env p' t' lp' lt' st = (Inr a, st))
   \<and> (Config_instance st = None \<and> Config_new env p t lp lt st = (Inr a, st1) \<longrightarrow>
        (\<exists>c. load_config env p t = Inr c \<and> config (heap st1 ! a) = Some c)
        \<and> Config_new env p' t' lp' lt' st1 = (Inr a, st1))"
proof -
  have "at_most_one initial_state" by (simp add: at_most_one_def initial_state_def)
  then have A: "length (heap (constructions env cs initial_state)) \<le> 1"
    by (intro at_most_one_length constructions_at_most_one)
  have B: "Config_instance st = Some a \<longrightarrow> Config_new env p' t' lp' lt' st = (Inr a, st)"
    by (simp add: Config_new_existing)
  have C: "Config_instance st = None \<and> Config_new env p t lp lt st = (Inr a, st1) \<longrightarrow>
        (\<exists>c. load_config env p t = Inr c \<and> config (heap st1 ! a) = Some c)
        \<and> Config_new env p' t' lp' lt' st1 = (Inr a, st1)"
    using Config_new_first [of st env p t lp lt a st1] by (auto simp: Config_new_existing)
  from A B C show ?thesis by blast
qed

theorem Config_singleton_witness:
  "Config_instance initial_state = None
   \<and> Config_new demo_env ''config.toml'' None None None initial_state = (Inr 0, demo_state)
   \<and> Config_instance demo_state = Some 0
   \<and> Config_new demo_env ''other.json'' None None None demo_state = (Inr 0, demo_state)
   \<and> get (heap demo_state ! 0) (Some ''a'') PNone = Inr (PInt 1)
   \<and> load_config demo_env ''other.json'' None = Inr (PDict [(''a'', PInt 2)])"
  using Config_singleton [of demo_env "[]" initial_state 0 "''other.json''" None None None
      "''config.toml''" None None None demo_state]
    Config_singleton [of demo_env "[]" demo_state 0 "''other.json''" None None None
      "''config.toml''" None None None demo_state]
    demo_first
  by (simp add: initial_state_def demo_state_def get_def dict_get_def load_config_def
      file_extension_def splitext_def rfind_def parse_json_file_def demo_env_def)

section \<open>Rejected extensions\<close>

lemma must_specify_neq: "must_specify p \<noteq> invalid_extension q"
  by (simp add: must_specify_def invalid_extension_def)

text \<open>
  Claim C8. A path whose extension is \<^verbatim>\<open>.config\<close>, without an override, fails with a
  \<^verbatim>\<open>ConfigParseError\<close> that tells the caller to name the format; an extension outside
  the supported set fails with the \<^verbatim>\<open>ConfigParseError\<close> that lists the supported
  extensions; the two messages differ for all paths; and both results are the same in
  every environment, so no parser takes part in them.
\<close>

theorem config_extension_rejected:
  "(snd (splitext p) = ''.config'' \<and> (t = None \<or> t = Some []) \<longrightarrow>
      load_config env p t = Inl (ConfigParseError (must_specify p)))
   \<and> (file_extension q u \<notin> set (''.config'' # supported_extensions) \<longrightarrow>
      load_config env q u = Inl (ConfigParseError (invalid_extension q)))
   \<and> must_specify p \<noteq> invalid_extension q"
  by (auto simp: load_config_def file_extension_def supported_extensions_def must_specify_neq)

theorem config_extension_rejected_witness:
  "snd (splitext ''app.config'') = ''.config''
   \<and> load_config demo_env ''app.config'' None = Inl (ConfigParseError (must_specify ''app.config''))
   \<and> file_extension ''notes.txt'' None \<notin> set (''.config'' # supported_extensions)
   \<and> load_config demo_env ''notes.txt'' None = Inl (ConfigParseError (invalid_extension ''notes.txt''))
   \<and> must_specify ''app.config'' \<noteq> invalid_extension ''notes.txt''"
  using config_extension_rejected [of "''app.config''" None demo_env "''notes.txt''" None]
  by (simp add: splitext_def rfind_def file_extension_def supported_extensions_def)

end
